theory Spec2Isabelle
  imports Main "HOL-Library.Word"
begin

unbundle bit_operations_syntax

section \<open>JavaScript values that flow through the program\<close>

text \<open>
  The TypeScript interfaces (\<open>MediaItem\<close>, \<open>BrollSuggestions\<close>) are erased at run time:
  \<open>cachedData as MediaItem[]\<close> and \<open>JSON.parse(content) as T\<close> check nothing. What the
  program holds is therefore whatever \<open>JSON.parse\<close> returned, and the model carries exactly
  that: a value in memory. A number is an IEEE 754 double, given by its 64 bits. An object
  lists its own properties in the order the engine enumerates them. A string is the list of
  its characters. \<open>undefined\<close> is \<open>None\<close> of \<open>json option\<close>.
\<close>

datatype json =
    JNull
  | JBool bool
  | JNum "64 word"
  | JStr string
  | JArr "json list"
  | JObj "(string \<times> json) list"

type_synonym jsval = "json option"

datatype error = TypeError | SyntaxError | IOError

text \<open>The classes of a double that the program and \<open>JSON.stringify\<close> tell apart.\<close>

definition is_finite :: "64 word \<Rightarrow> bool" where
  "is_finite b = (b AND 0x7FF0000000000000 \<noteq> 0x7FF0000000000000)"

definition is_NaN :: "64 word \<Rightarrow> bool" where
  "is_NaN b = (b AND 0x7FF0000000000000 = 0x7FF0000000000000 \<and> b AND 0x000FFFFFFFFFFFFF \<noteq> 0)"

definition is_zero :: "64 word \<Rightarrow> bool" where
  "is_zero b = (b AND 0x7FFFFFFFFFFFFFFF = 0)"

text \<open>
  \<open>v.k\<close> for the property names the program reads (\<open>filename\<close>, \<open>suggestions\<close>), which
  no built-in prototype defines: reading a property of \<open>null\<close> throws a TypeError, an
  object gives its own property or \<open>undefined\<close>, every other value gives \<open>undefined\<close>.
\<close>

fun property :: "string \<Rightarrow> json \<Rightarrow> error + jsval" where
  "property k JNull = Inl TypeError"
| "property k (JObj kvs) = Inr (map_of kvs k)"
| "property k (JBool b) = Inr None"
| "property k (JNum n) = Inr None"
| "property k (JStr s) = Inr None"
| "property k (JArr xs) = Inr None"

text \<open>JavaScript truthiness of a defined value, as \<open>||\<close> reads it.\<close>

fun truthy :: "json \<Rightarrow> bool" where
  "truthy JNull = False"
| "truthy (JBool b) = b"
| "truthy (JNum n) = (\<not> is_zero n \<and> \<not> is_NaN n)"
| "truthy (JStr s) = (s \<noteq> [])"
| "truthy (JArr xs) = True"
| "truthy (JObj kvs) = True"

text \<open>
  The spread \<open>[...v]\<close> of an array literal: an array gives its elements, a string its
  characters as one-character strings, anything else is not iterable (TypeError).
\<close>

fun spread :: "json \<Rightarrow> error + json list" where
  "spread (JArr xs) = Inr xs"
| "spread (JStr s) = Inr (map (\<lambda>c. JStr [c]) s)"
| "spread JNull = Inl TypeError"
| "spread (JBool b) = Inl TypeError"
| "spread (JNum n) = Inl TypeError"
| "spread (JObj kvs) = Inl TypeError"

text \<open>\<open>xs.join(sep)\<close> on an array of strings.\<close>

fun join :: "string \<Rightarrow> string list \<Rightarrow> string" where
  "join sep [] = []"
| "join sep [x] = x"
| "join sep (x # y # ys) = x @ sep @ join sep (y # ys)"

section \<open>JSON text\<close>

text \<open>
  The cache file holds text, not values. A JSON text is taken up to white space and the
  spelling of escapes: a number is its literal, an object its members in the order of the
  text, repeated names included.
\<close>

datatype doc =
    DNull
  | DBool bool
  | DNum string
  | DStr string
  | DArr "doc list"
  | DObj "(string \<times> doc) list"

text \<open>
  How \<open>JSON.parse\<close> builds an object: a member whose name is already there replaces the
  value in place, a new name goes to the end. The engine then enumerates the array indices
  (canonical decimal numerals below \<open>2^32 - 1\<close>) first, in ascending order, and the other
  names in the order of their creation.
\<close>

fun define_property :: "string \<Rightarrow> 'a \<Rightarrow> (string \<times> 'a) list \<Rightarrow> (string \<times> 'a) list" where
  "define_property k v [] = [(k, v)]"
| "define_property k v ((k', v') # kvs) =
     (if k' = k then (k, v) # kvs else (k', v') # define_property k v kvs)"

definition index_value :: "string \<Rightarrow> nat" where
  "index_value k = foldl (\<lambda>n c. 10 * n + (of_char c - 48)) 0 k"

definition is_array_index :: "string \<Rightarrow> bool" where
  "is_array_index k =
     (k \<noteq> [] \<and> list_all (\<lambda>c. c \<in> set ''0123456789'') k \<and>
      (k = ''0'' \<or> take 1 k \<noteq> ''0'') \<and> index_value k < 4294967295)"

definition own_keys_order :: "(string \<times> 'a) list \<Rightarrow> (string \<times> 'a) list" where
  "own_keys_order kvs =
     sort_key (\<lambda>kv. index_value (fst kv)) (filter (\<lambda>kv. is_array_index (fst kv)) kvs)
     @ filter (\<lambda>kv. \<not> is_array_index (fst kv)) kvs"

text \<open>
  \<open>JSON.parse\<close> on a JSON text. The conversion of a number literal to a double is the
  engine's, passed in as \<open>parseNumber\<close> (an overflowing literal gives an infinity).
\<close>

fun JSON_parse :: "(string \<Rightarrow> 64 word) \<Rightarrow> doc \<Rightarrow> json" where
  "JSON_parse parseNumber DNull = JNull"
| "JSON_parse parseNumber (DBool b) = JBool b"
| "JSON_parse parseNumber (DNum lit) = JNum (parseNumber lit)"
| "JSON_parse parseNumber (DStr s) = JStr s"
| "JSON_parse parseNumber (DArr ds) = JArr (map (JSON_parse parseNumber) ds)"
| "JSON_parse parseNumber (DObj ms) =
     JObj (own_keys_order
             (foldl (\<lambda>acc kv. define_property (fst kv) (snd kv) acc) []
                (map (\<lambda>(k, d). (k, JSON_parse parseNumber d)) ms)))"

text \<open>
  \<open>JSON.stringify\<close> on a value that holds no \<open>undefined\<close> and no function: the members of
  an object in enumeration order, a finite number as the engine prints it (\<open>printNumber\<close>),
  a number that is not finite as \<open>null\<close>. The indentation argument changes white space only.
\<close>

fun JSON_stringify :: "(64 word \<Rightarrow> string) \<Rightarrow> json \<Rightarrow> doc" where
  "JSON_stringify printNumber JNull = DNull"
| "JSON_stringify printNumber (JBool b) = DBool b"
| "JSON_stringify printNumber (JNum n) = (if is_finite n then DNum (printNumber n) else DNull)"
| "JSON_stringify printNumber (JStr s) = DStr s"
| "JSON_stringify printNumber (JArr xs) = DArr (map (JSON_stringify printNumber) xs)"
| "JSON_stringify printNumber (JObj kvs) =
     DObj (map (\<lambda>(k, v). (k, JSON_stringify printNumber v)) kvs)"

section \<open>The world outside the program\<close>

text \<open>
  What a file read through \<open>exists\<close>, \<open>Deno.readTextFile\<close> and \<open>JSON.parse\<close> can be:
  not there, failing at \<open>exists\<close>, failing at the read, text that \<open>JSON.parse\<close> rejects, or
  a JSON text.
\<close>

datatype stored = Absent | ExistsFails | ReadFails | NotJson | Text doc

text \<open>
  How one request of the analyzer's \<open>generateStructuredOutput\<close> can end: \<open>fetch\<close>
  rejects, the status is not ok, \<open>response.json()\<close> rejects, reading
  \<open>data.choices[0].message.content\<close> throws, \<open>JSON.parse(content)\<close> throws, or it
  returns a value.
\<close>

datatype api_reply =
    FetchThrows
  | HttpNotOk
  | BodyNotJson
  | ContentUnreachable
  | ContentNotJson
  | Content json

text \<open>
  How the one request of the suggestion module's \<open>generateStructuredOutput\<close> can end:
  \<open>create\<close> rejects, reading \<open>response.choices[0].message.content\<close> throws, the content
  is falsy (\<open>null\<close>, \<open>undefined\<close> or the empty string), \<open>JSON.parse(content)\<close> throws, or
  it returns a value.
\<close>

datatype completion =
    CreateThrows
  | ChoicesUnreachable
  | EmptyContent
  | ContentUnparseable
  | Parsed json

text \<open>
  The world is a parameter of every operation. The path functions (\<open>jsr:@std/path\<close>),
  \<open>toLowerCase\<close> and the two number conversions of the engine (\<open>parseNumber\<close> for
  \<open>JSON.parse\<close>, \<open>printNumber\<close> for \<open>JSON.stringify\<close>) are library code, passed in as they
  are; \<open>ensureDir\<close> tells whether creating the directory succeeds; \<open>storage\<close> is the
  file system at the paths read as JSON text, \<open>write_ok\<close> whether \<open>Deno.writeTextFile\<close> to a path succeeds. \<open>readImage\<close>
  stands for \<open>Deno.readFile\<close> followed by \<open>encodeBase64\<close> (\<open>None\<close> when the read throws),
  \<open>extractFrame\<close> for the frame grab followed by \<open>encodeBase64\<close> (\<open>None\<close> when no frame
  comes back), \<open>loadTranscriptForVideo\<close> for the transcript lookup (the empty string when
  there is none): each of them catches its own failures in the source. \<open>fetch\<close> answers
  the request with a given index in the run, API key, system prompt and messages.
\<close>

record world =
  basename :: "string \<Rightarrow> string"
  resolve :: "string \<Rightarrow> string"
  extname :: "string \<Rightarrow> string"
  toLowerCase :: "string \<Rightarrow> string"
  parseNumber :: "string \<Rightarrow> 64 word"
  printNumber :: "64 word \<Rightarrow> string"
  ensureDir :: "string \<Rightarrow> bool"
  storage :: "string \<Rightarrow> stored"
  write_ok :: "string \<Rightarrow> bool"
  readImage :: "string \<Rightarrow> string option"
  extractFrame :: "string \<Rightarrow> string option"
  loadTranscriptForVideo :: "string \<Rightarrow> string \<Rightarrow> string"
  apiKey :: "string option"
  fetch :: "nat \<Rightarrow> string \<Rightarrow> string \<Rightarrow> (string \<times> string) list \<Rightarrow> api_reply"

text \<open>
  What a run leaves behind besides its value: console lines and calls, in order. A write
  attempt carries the path and the text handed to \<open>Deno.writeTextFile\<close>.
\<close>

datatype event =
    ErrLoadingCache
  | AnalysisCall nat string
  | ErrGenerating
  | FallbackLog string
  | WriteAttempt string doc
  | ErrSavingCache

record run =
  returned :: "error + json list"
  storage_after :: "string \<Rightarrow> stored"
  trace :: "event list"

section \<open>The media analyzer\<close>

subsection \<open>Classification by extension\<close>

datatype media_type = Image | Video | Other | Unknown

fun media_type_str :: "media_type \<Rightarrow> string" where
  "media_type_str Image = ''image''"
| "media_type_str Video = ''video''"
| "media_type_str Other = ''other''"
| "media_type_str Unknown = ''unknown''"

text \<open>
  Lines 301 to 311: \<open>mediaType\<close> starts as \<open>"unknown"\<close> and is then assigned in every
  branch of the chain over the lower-cased extension.
\<close>

definition detect_media_type :: "world \<Rightarrow> string \<Rightarrow> media_type" where
  "detect_media_type w filePath =
     (let mediaType = Unknown;
          fileExt = toLowerCase w (extname w filePath)
      in if fileExt \<in> set [''.jpg'', ''.jpeg'', ''.png'', ''.gif'', ''.bmp'', ''.webp'']
         then Image
         else if fileExt \<in> set [''.mp4'', ''.mov'', ''.mkv'', ''.webm'', ''.m4v'']
         then Video
         else Other)"

subsection \<open>One request to the analysis service\<close>

definition systemPrompt :: string where
  "systemPrompt =
     ''You are analyzing a media file in the context of a marketing project. '' @
     ''You will return a JSON describing filename, media_type, description, and relevance. '' @
     ''No extra text, only valid JSON.''"

text \<open>
  \<open>generateStructuredOutput\<close> of the analyzer: everything is inside one \<open>try\<close>, whose
  \<open>catch\<close> logs and returns \<open>null\<close>. A missing or empty API key throws before any
  request is sent. A reply whose content parses to \<open>null\<close> is returned as it is, and is
  then the same \<open>null\<close> to the caller.
\<close>

definition generateStructuredOutput ::
  "world \<Rightarrow> nat \<Rightarrow> string \<Rightarrow> (string \<times> string) list \<Rightarrow> json \<times> event list" where
  "generateStructuredOutput w i sys messages =
     (case apiKey w of
        None \<Rightarrow> (JNull, [ErrGenerating])
      | Some k \<Rightarrow>
          if k = [] then (JNull, [ErrGenerating])
          else (case fetch w i k sys messages of
                  Content v \<Rightarrow> (v, [])
                | FetchThrows \<Rightarrow> (JNull, [ErrGenerating])
                | HttpNotOk \<Rightarrow> (JNull, [ErrGenerating])
                | BodyNotJson \<Rightarrow> (JNull, [ErrGenerating])
                | ContentUnreachable \<Rightarrow> (JNull, [ErrGenerating])
                | ContentNotJson \<Rightarrow> (JNull, [ErrGenerating])))"

subsection \<open>One unseen file\<close>

definition contentLines ::
  "string \<Rightarrow> string \<Rightarrow> media_type \<Rightarrow> string \<Rightarrow> string option \<Rightarrow> string list" where
  "contentLines marketingContext fileName mediaType transcriptText imageData =
     [''Marketing Context: '' @ take 1000 marketingContext @ ''...'',
      ''File: '' @ fileName @ '', Type: '' @ media_type_str mediaType]
     @ (if transcriptText \<noteq> [] then [''Transcript: '' @ transcriptText] else [])
     @ (case imageData of
          None \<Rightarrow> [''No image available.'']
        | Some d \<Rightarrow>
            if d \<noteq> [] then [''Image: data:image/jpeg;base64,'' @ d]
            else [''No image available.''])"

definition userMessage :: "world \<Rightarrow> string \<Rightarrow> string \<Rightarrow> string \<Rightarrow> string" where
  "userMessage w marketingContext transcriptDir f =
     (let filePath = resolve w f;
          fileName = basename w filePath;
          mediaType = detect_media_type w filePath;
          imageData = (case mediaType of
                         Image \<Rightarrow> readImage w filePath
                       | Video \<Rightarrow> extractFrame w filePath
                       | Other \<Rightarrow> None
                       | Unknown \<Rightarrow> None);
          transcriptText = (if mediaType = Video
                            then loadTranscriptForVideo w filePath transcriptDir else [])
      in join [CHR 0x0A]
           (contentLines marketingContext fileName mediaType transcriptText imageData))"

text \<open>The fallback literal of lines 370 to 375.\<close>

definition fallback_item :: "string \<Rightarrow> media_type \<Rightarrow> json" where
  "fallback_item fileName mediaType =
     JObj [(''filename'', JStr fileName),
           (''media_type'', JStr (media_type_str mediaType)),
           (''description'', JStr ''No description found''),
           (''relevance'', JStr ''unknown'')]"

text \<open>
  The body of the loop (lines 297 to 379) for the \<open>i\<close>-th unseen file \<open>f\<close>: the item
  pushed, and what was called and logged.
\<close>

definition analyze_file ::
  "world \<Rightarrow> string \<Rightarrow> string \<Rightarrow> nat \<Rightarrow> string \<Rightarrow> json \<times> event list" where
  "analyze_file w marketingContext transcriptDir i f =
     (let filePath = resolve w f;
          fileName = basename w filePath;
          mediaType = detect_media_type w filePath;
          messages = [(''user'', userMessage w marketingContext transcriptDir f)];
          (item, ev) = generateStructuredOutput w i systemPrompt messages
      in if item = JNull
         then (fallback_item fileName mediaType,
               AnalysisCall i fileName # ev @ [FallbackLog fileName])
         else (item, AnalysisCall i fileName # ev))"

fun process_files ::
  "world \<Rightarrow> string \<Rightarrow> string \<Rightarrow> nat \<Rightarrow> string list \<Rightarrow> json list \<times> event list" where
  "process_files w marketingContext transcriptDir i [] = ([], [])"
| "process_files w marketingContext transcriptDir i (f # fs) =
     (let (item, ev) = analyze_file w marketingContext transcriptDir i f;
          (items, evs) = process_files w marketingContext transcriptDir (Suc i) fs
      in (item # items, ev @ evs))"

subsection \<open>Loading the cache\<close>

text \<open>\<open>cachedItems.map(item => item.filename)\<close> on an array: it throws at a \<open>null\<close> element.\<close>

fun filenames :: "json list \<Rightarrow> error + jsval list" where
  "filenames [] = Inr []"
| "filenames (x # xs) =
     (case property ''filename'' x of
        Inl e \<Rightarrow> Inl e
      | Inr v \<Rightarrow> (case filenames xs of Inl e \<Rightarrow> Inl e | Inr vs \<Rightarrow> Inr (v # vs)))"

text \<open>
  Lines 274 to 287. The result is \<open>(cachedItems, cachedFilenames, log)\<close>. The assignment
  \<open>cachedItems = cachedData\<close> comes before the \<open>map\<close>, so when the \<open>map\<close> throws (the value
  is no array, or an element is \<open>null\<close>) \<open>cachedItems\<close> keeps the parsed value while
  \<open>cachedFilenames\<close> stays empty. The \<open>Set\<close> is the list of its members.
\<close>

definition load_cache :: "world \<Rightarrow> string \<Rightarrow> json \<times> jsval list \<times> event list" where
  "load_cache w cachePath =
     (case storage w cachePath of
        Absent \<Rightarrow> (JArr [], [], [])
      | ExistsFails \<Rightarrow> (JArr [], [], [ErrLoadingCache])
      | ReadFails \<Rightarrow> (JArr [], [], [ErrLoadingCache])
      | NotJson \<Rightarrow> (JArr [], [], [ErrLoadingCache])
      | Text cacheData \<Rightarrow>
          (let cachedData = JSON_parse (parseNumber w) cacheData
           in case cachedData of
                JArr xs \<Rightarrow>
                  (case filenames xs of
                     Inr names \<Rightarrow> (cachedData, names, [])
                   | Inl e \<Rightarrow> (cachedData, [], [ErrLoadingCache]))
              | JNull \<Rightarrow> (cachedData, [], [ErrLoadingCache])
              | JBool b \<Rightarrow> (cachedData, [], [ErrLoadingCache])
              | JNum n \<Rightarrow> (cachedData, [], [ErrLoadingCache])
              | JStr s \<Rightarrow> (cachedData, [], [ErrLoadingCache])
              | JObj kvs \<Rightarrow> (cachedData, [], [ErrLoadingCache])))"

subsection \<open>Unseen files, merge, save\<close>

text \<open>Lines 289 to 292: \<open>cachedFilenames.has(path.basename(f))\<close> compares a string.\<close>

definition newFiles :: "world \<Rightarrow> jsval list \<Rightarrow> string list \<Rightarrow> string list" where
  "newFiles w cachedFilenames mediaFiles =
     filter (\<lambda>f. Some (JStr (basename w f)) \<notin> set cachedFilenames) mediaFiles"

text \<open>Line 382: \<open>[...cachedItems, ...newItems]\<close>.\<close>

definition allItems :: "json \<Rightarrow> json list \<Rightarrow> error + json list" where
  "allItems cachedItems newItems =
     (case spread cachedItems of
        Inl e \<Rightarrow> Inl e
      | Inr xs \<Rightarrow> Inr (xs @ newItems))"

text \<open>
  Lines 384 to 392: the write of \<open>JSON.stringify(allItems, null, 2)\<close> and its \<open>catch\<close>.
  A successful write replaces the text of the file; a failed one leaves the file as it was.
\<close>

definition save_cache ::
  "world \<Rightarrow> string \<Rightarrow> json list \<Rightarrow> (string \<Rightarrow> stored) \<times> event list" where
  "save_cache w cachePath items =
     (let text = JSON_stringify (printNumber w) (JArr items)
      in if write_ok w cachePath
         then ((storage w)(cachePath := Text text), [WriteAttempt cachePath text])
         else (storage w, [WriteAttempt cachePath text, ErrSavingCache]))"

subsection \<open>The run\<close>

text \<open>
  \<open>analyzeMediaFiles\<close>. Two statements stand outside every \<open>try\<close>: \<open>await ensureDir\<close> at
  the start and the spread of line 382; an exception of either rejects the promise.
\<close>

definition analyzeMediaFiles ::
  "world \<Rightarrow> string list \<Rightarrow> string \<Rightarrow> string \<Rightarrow> string \<Rightarrow> run" where
  "analyzeMediaFiles w mediaFiles marketingContext transcriptDir cachePath =
     (if ensureDir w transcriptDir then
        (case load_cache w cachePath of
           (cachedItems, cachedFilenames, ev1) \<Rightarrow>
             (case process_files w marketingContext transcriptDir 0
                     (newFiles w cachedFilenames mediaFiles) of
                (newItems, ev2) \<Rightarrow>
                  (case allItems cachedItems newItems of
                     Inl e \<Rightarrow>
                       \<lparr>returned = Inl e, storage_after = storage w, trace = ev1 @ ev2\<rparr>
                   | Inr items \<Rightarrow>
                       (case save_cache w cachePath items of
                          (st, ev3) \<Rightarrow>
                            \<lparr>returned = Inr items, storage_after = st,
                             trace = ev1 @ ev2 @ ev3\<rparr>))))
      else \<lparr>returned = Inl IOError, storage_after = storage w, trace = []\<rparr>)"

section \<open>The suggestion requester\<close>

text \<open>
  \<open>generateStructuredOutput\<close> of the suggestion module: the default on a rejected
  request, on falsy content and on a parse error; otherwise the parsed value, unchecked.
\<close>

definition suggest_generateStructuredOutput :: "completion \<Rightarrow> json \<Rightarrow> json" where
  "suggest_generateStructuredOutput reply defaultValue =
     (case reply of
        Parsed v \<Rightarrow> v
      | CreateThrows \<Rightarrow> defaultValue
      | ChoicesUnreachable \<Rightarrow> defaultValue
      | EmptyContent \<Rightarrow> defaultValue
      | ContentUnparseable \<Rightarrow> defaultValue)"

text \<open>
  \<open>suggestBroll\<close>: the prompt is a fixed template around the marketing context and the
  analyzed media, so the service is a function \<open>create\<close> of these two. The last line,
  \<open>brollResult.suggestions || []\<close>, is outside the \<open>try\<close>.
\<close>

definition suggestBroll ::
  "(json list \<Rightarrow> string \<Rightarrow> completion) \<Rightarrow> json list \<Rightarrow> string \<Rightarrow> error + json" where
  "suggestBroll create analyzedMedia marketingContext =
     (let mediaList = map (\<lambda>m. m) analyzedMedia;
          brollResult = suggest_generateStructuredOutput (create mediaList marketingContext)
                          (JObj [(''suggestions'', JArr [])])
      in case property ''suggestions'' brollResult of
           Inl e \<Rightarrow> Inl e
         | Inr None \<Rightarrow> Inr (JArr [])
         | Inr (Some s) \<Rightarrow> Inr (if truthy s then s else JArr []))"

section \<open>A concrete world\<close>

text \<open>
  The path library is not part of the repository. To run the program on concrete inputs
  the theorems are instantiated with the POSIX behaviour its documentation describes. A
  path is cut at its slashes; its segments are the pieces that are not empty. \<open>basename\<close>
  is the last segment (\<open>/\<close> for a path of slashes only); \<open>resolve\<close> prefixes a relative
  path with the working directory and removes the \<open>.\<close> and \<open>..\<close> segments; \<open>extname\<close> is
  the base name from its last dot on, unless there is none or it is the first character.
  \<open>toLowerCase\<close> is given on ASCII.
\<close>

fun split_slash :: "string \<Rightarrow> string list" where
  "split_slash [] = [[]]"
| "split_slash (c # cs) =
     (if c = CHR ''/'' then [] # split_slash cs
      else (case split_slash cs of
              [] \<Rightarrow> [[c]]
            | s # ss \<Rightarrow> (c # s) # ss))"

definition segments :: "string \<Rightarrow> string list" where
  "segments p = filter (\<lambda>s. s \<noteq> []) (split_slash p)"

definition posix_basename :: "string \<Rightarrow> string" where
  "posix_basename p =
     (case rev (segments p) of
        [] \<Rightarrow> (if p = [] then [] else ''/'')
      | b # bs \<Rightarrow> b)"

fun normalize_segments :: "string list \<Rightarrow> string list \<Rightarrow> string list" where
  "normalize_segments st [] = rev st"
| "normalize_segments st (s # ss) =
     (if s = ''.'' then normalize_segments st ss
      else if s = ''..'' then normalize_segments (tl st) ss
      else normalize_segments (s # st) ss)"

definition posix_resolve :: "string \<Rightarrow> string \<Rightarrow> string" where
  "posix_resolve cwd p =
     (let q = (if take 1 p = ''/'' then p else cwd @ ''/'' @ p)
      in ''/'' @ join ''/'' (normalize_segments [] (segments q)))"

definition posix_extname :: "string \<Rightarrow> string" where
  "posix_extname p =
     (let b = posix_basename p;
          e = takeWhile (\<lambda>c. c \<noteq> CHR ''.'') (rev b)
      in if CHR ''.'' \<notin> set b \<or> b = ''..'' \<or> Suc (length e) = length b then []
         else CHR ''.'' # rev e)"

definition ascii_toLowerCase :: "string \<Rightarrow> string" where
  "ascii_toLowerCase s =
     map (\<lambda>c. let n = (of_char c :: nat)
               in if 65 \<le> n \<and> n \<le> 90 then char_of (n + 32) else c) s"

text \<open>A path names a file when its last segment is a name, not \<open>.\<close> or \<open>..\<close>.\<close>

definition names_file :: "string \<Rightarrow> bool" where
  "names_file p =
     (case rev (segments p) of
        [] \<Rightarrow> False
      | b # bs \<Rightarrow> b \<noteq> ''.'' \<and> b \<noteq> ''..'')"

text \<open>
  The number conversions of the engine on the literals and doubles used below: \<open>1e400\<close>
  overflows to \<open>+Infinity\<close>, \<open>9007199254740993\<close> rounds to \<open>2^53\<close>, which prints as
  \<open>9007199254740992\<close>. Their values elsewhere play no role.
\<close>

definition engine_parseNumber :: "string \<Rightarrow> 64 word" where
  "engine_parseNumber lit =
     (if lit = ''1e400'' then 0x7FF0000000000000
      else if lit = ''9007199254740993'' then 0x4340000000000000
      else if lit = ''9007199254740992'' then 0x4340000000000000
      else 0)"

definition engine_printNumber :: "64 word \<Rightarrow> string" where
  "engine_printNumber n = (if n = 0x4340000000000000 then ''9007199254740992'' else ''0'')"

text \<open>
  A world with the working directory \<open>/home/user/project\<close>, no cache file, no API key in
  the environment, no readable image, frame or transcript, and every write succeeding.
\<close>

definition offline_world :: world where
  "offline_world =
     \<lparr>basename = posix_basename,
      resolve = posix_resolve ''/home/user/project'',
      extname = posix_extname,
      toLowerCase = ascii_toLowerCase,
      parseNumber = engine_parseNumber,
      printNumber = engine_printNumber,
      ensureDir = (\<lambda>d. True),
      storage = (\<lambda>p. Absent),
      write_ok = (\<lambda>p. True),
      readImage = (\<lambda>p. None),
      extractFrame = (\<lambda>p. None),
      loadTranscriptForVideo = (\<lambda>p d. []),
      apiKey = None,
      fetch = (\<lambda>i k sys messages. FetchThrows)\<rparr>"

text \<open>
  The offline world after an earlier run left one analyzed item in the cache file, with a
  field beyond the four of the interface.
\<close>

definition cached_text :: doc where
  "cached_text =
     DArr [DObj [(''filename'', DStr ''a.mp4''),
                 (''media_type'', DStr ''video''),
                 (''description'', DStr ''Opening shot of the product''),
                 (''relevance'', DStr ''high''),
                 (''tags'', DArr [DStr ''intro'', DStr ''hero''])]]"

definition cached_item :: json where
  "cached_item =
     JObj [(''filename'', JStr ''a.mp4''),
           (''media_type'', JStr ''video''),
           (''description'', JStr ''Opening shot of the product''),
           (''relevance'', JStr ''high''),
           (''tags'', JArr [JStr ''intro'', JStr ''hero''])]"

definition cached_world :: world where
  "cached_world = offline_world\<lparr>storage := (\<lambda>p. Text cached_text)\<rparr>"


text \<open>The offline world with a cache file holding the JSON text \<open>t\<close>.\<close>

definition broken_cache_world :: "doc \<Rightarrow> world" where
  "broken_cache_world t = offline_world\<lparr>storage := (\<lambda>p. Text t)\<rparr>"




text \<open>
  The offline world with a cached entry that carries two numbers: an identifier beyond
  \<open>2^53\<close> and a score whose literal overflows.
\<close>

definition scored_text :: doc where
  "scored_text =
     DArr [DObj [(''filename'', DStr ''a.mp4''),
                 (''id'', DNum ''9007199254740993''),
                 (''score'', DNum ''1e400'')]]"

definition scored_world :: world where
  "scored_world = offline_world\<lparr>storage := (\<lambda>p. Text scored_text)\<rparr>"

section \<open>Notions the properties are stated with\<close>

text \<open>The \<open>filename\<close> field of a cached item: \<open>undefined\<close> when it has none.\<close>

definition filename_of :: "json \<Rightarrow> jsval" where
  "filename_of item = (case property ''filename'' item of Inl e \<Rightarrow> None | Inr v \<Rightarrow> v)"

text \<open>
  The analysis call for the \<open>i\<close>-th unseen file \<open>f\<close> fails: the credential is absent or
  empty, or the request ends in any way but a parsed content.
\<close>

definition analysis_call_fails ::
  "world \<Rightarrow> string \<Rightarrow> string \<Rightarrow> nat \<Rightarrow> string \<Rightarrow> bool" where
  "analysis_call_fails w marketingContext transcriptDir i f =
     (case apiKey w of
        None \<Rightarrow> True
      | Some k \<Rightarrow>
          k = [] \<or>
          (case fetch w i k systemPrompt
                  [(''user'', userMessage w marketingContext transcriptDir f)] of
             Content v \<Rightarrow> False
           | FetchThrows \<Rightarrow> True
           | HttpNotOk \<Rightarrow> True
           | BodyNotJson \<Rightarrow> True
           | ContentUnreachable \<Rightarrow> True
           | ContentNotJson \<Rightarrow> True))"




fun is_write_attempt :: "event \<Rightarrow> bool" where
  "is_write_attempt (WriteAttempt p t) = True"
| "is_write_attempt ErrLoadingCache = False"
| "is_write_attempt ErrGenerating = False"
| "is_write_attempt (FallbackLog n) = False"
| "is_write_attempt (AnalysisCall i n) = False"
| "is_write_attempt ErrSavingCache = False"

text \<open>
  A value that \<open>JSON.stringify\<close> followed by \<open>JSON.parse\<close> gives back as it is: its numbers
  are finite and survive printing and parsing, and its objects list distinct names in
  enumeration order, as every object that came from \<open>JSON.parse\<close> does.
\<close>

fun prints_back :: "(string \<Rightarrow> 64 word) \<Rightarrow> (64 word \<Rightarrow> string) \<Rightarrow> json \<Rightarrow> bool" where
  "prints_back pn pr JNull = True"
| "prints_back pn pr (JBool b) = True"
| "prints_back pn pr (JNum n) = (is_finite n \<and> pn (pr n) = n)"
| "prints_back pn pr (JStr s) = True"
| "prints_back pn pr (JArr xs) = list_all (prints_back pn pr) xs"
| "prints_back pn pr (JObj kvs) =
     (distinct (map fst kvs) \<and> own_keys_order kvs = kvs \<and>
      list_all (prints_back pn pr) (map snd kvs))"



section \<open>Auxiliary facts\<close>

subsection \<open>The POSIX paths\<close>

lemma split_slash_not_Nil: "split_slash p \<noteq> []"
  by (induction p) (auto split: list.splits)

lemma split_slash_no_slash: "s \<in> set (split_slash p) \<Longrightarrow> CHR ''/'' \<notin> set s"
proof (induction p arbitrary: s)
  case Nil
  then show ?case by simp
next
  case (Cons c cs)
  then show ?case
    by (cases "split_slash cs") (auto split: if_splits)
qed

lemma split_slash_plain: "CHR ''/'' \<notin> set s \<Longrightarrow> split_slash s = [s]"
  by (induction s) auto

lemma split_slash_append:
  "split_slash (a @ CHR ''/'' # r) = split_slash a @ split_slash r"
proof (induction a)
  case Nil
  show ?case by simp
next
  case (Cons c cs)
  then show ?case
    using split_slash_not_Nil [of cs] by (cases "split_slash cs") auto
qed

lemma segments_append:
  "segments (a @ CHR ''/'' # r) = segments a @ segments r"
  by (simp add: segments_def split_slash_append)

lemma segments_are_names:
  "s \<in> set (segments p) \<Longrightarrow> s \<noteq> [] \<and> CHR ''/'' \<notin> set s"
  by (auto simp add: segments_def dest: split_slash_no_slash)

lemma split_slash_join:
  "ys \<noteq> [] \<Longrightarrow> (\<And>y. y \<in> set ys \<Longrightarrow> CHR ''/'' \<notin> set y) \<Longrightarrow>
   split_slash (join ''/'' ys) = ys"
proof (induction "''/''" ys rule: join.induct)
  case 1
  then show ?case by simp
next
  case (2 x)
  then show ?case by (simp add: split_slash_plain)
next
  case (3 x y ys)
  have "split_slash (x @ CHR ''/'' # join ''/'' (y # ys))
          = split_slash x @ split_slash (join ''/'' (y # ys))"
    by (rule split_slash_append)
  then show ?case
    using 3 by (simp add: split_slash_plain)
qed

lemma segments_of_joined:
  assumes "\<And>y. y \<in> set ys \<Longrightarrow> y \<noteq> [] \<and> CHR ''/'' \<notin> set y"
  shows "segments (''/'' @ join ''/'' ys) = ys"
proof (cases ys)
  case Nil
  then show ?thesis by (simp add: segments_def)
next
  case (Cons z zs)
  have "segments ([] @ CHR ''/'' # join ''/'' ys) = segments [] @ segments (join ''/'' ys)"
    by (rule segments_append)
  moreover have "split_slash (join ''/'' ys) = ys"
    using assms Cons by (intro split_slash_join) auto
  moreover have "filter (\<lambda>s. s \<noteq> []) ys = ys"
    using assms by (simp add: filter_id_conv)
  ultimately show ?thesis
    by (simp add: segments_def)
qed

lemma normalize_segments_subset:
  "set (normalize_segments st ss) \<subseteq> set st \<union> set ss"
proof (induction ss arbitrary: st)
  case Nil
  show ?case by simp
next
  case (Cons x xs)
  have t: "set (tl st) \<subseteq> set st"
    by (cases st) auto
  show ?case
    using Cons.IH [of st] Cons.IH [of "tl st"] Cons.IH [of "x # st"] t by auto
qed

lemma normalize_segments_snoc:
  "b \<noteq> ''.'' \<Longrightarrow> b \<noteq> ''..'' \<Longrightarrow>
   normalize_segments st (ss @ [b]) = normalize_segments st ss @ [b]"
  by (induction ss arbitrary: st) simp_all

text \<open>Resolving a path that names a file keeps its base name.\<close>

lemma posix_resolve_keeps_basename:
  assumes "names_file p"
  shows "posix_basename (posix_resolve cwd p) = posix_basename p"
proof -
  obtain b bs where r: "rev (segments p) = b # bs" and b: "b \<noteq> ''.''" "b \<noteq> ''..''"
    using assms by (auto simp add: names_file_def split: list.splits)
  have sp: "segments p = rev bs @ [b]"
    using r by (metis rev.simps(2) rev_rev_ident)
  define q where "q = (if take 1 p = ''/'' then p else cwd @ ''/'' @ p)"
  have "\<exists>ts. segments q = ts @ [b]"
  proof (cases "take 1 p = ''/''")
    case True
    then show ?thesis using sp by (simp add: q_def)
  next
    case False
    have "segments (cwd @ CHR ''/'' # p) = segments cwd @ segments p"
      by (rule segments_append)
    then show ?thesis using False sp by (simp add: q_def)
  qed
  then obtain ts where ts: "segments q = ts @ [b]"
    by blast
  let ?ys = "normalize_segments [] ts @ [b]"
  have n: "normalize_segments [] (segments q) = ?ys"
    using b by (simp add: ts normalize_segments_snoc)
  have names: "\<And>y. y \<in> set ?ys \<Longrightarrow> y \<noteq> [] \<and> CHR ''/'' \<notin> set y"
  proof -
    fix y assume "y \<in> set ?ys"
    then have "y \<in> set (ts @ [b])"
      using normalize_segments_subset [of "[]" ts] by auto
    then have "y \<in> set (segments q)"
      using ts by simp
    then show "y \<noteq> [] \<and> CHR ''/'' \<notin> set y"
      by (rule segments_are_names)
  qed
  have "segments (''/'' @ join ''/'' ?ys) = ?ys"
    using names by (rule segments_of_joined)
  moreover have "posix_resolve cwd p = ''/'' @ join ''/'' (normalize_segments [] (segments q))"
    by (simp add: posix_resolve_def q_def Let_def)
  ultimately have "posix_basename (posix_resolve cwd p) = b"
    by (simp add: posix_basename_def n)
  moreover have "posix_basename p = b"
    using r by (simp add: posix_basename_def)
  ultimately show ?thesis by simp
qed

subsection \<open>Writing and reading back\<close>

lemma define_property_new:
  "k \<notin> fst ` set kvs \<Longrightarrow> define_property k v kvs = kvs @ [(k, v)]"
  by (induction kvs) auto

lemma foldl_define_property_distinct:
  "distinct (map fst (acc @ kvs)) \<Longrightarrow>
   foldl (\<lambda>acc kv. define_property (fst kv) (snd kv) acc) acc kvs = acc @ kvs"
proof (induction kvs arbitrary: acc)
  case Nil
  show ?case by simp
next
  case (Cons kv kvs)
  have new: "fst kv \<notin> fst ` set acc"
    using Cons.prems by auto
  have "define_property (fst kv) (snd kv) acc = acc @ [kv]"
    using define_property_new [OF new, of "snd kv"] by simp
  moreover have "distinct (map fst ((acc @ [kv]) @ kvs))"
    using Cons.prems by simp
  ultimately show ?case
    using Cons.IH [of "acc @ [kv]"] by simp
qed

lemma JSON_roundtrip:
  "prints_back pn pr v \<Longrightarrow> JSON_parse pn (JSON_stringify pr v) = v"
proof (induction v)
  case (JArr xs)
  then have "map (JSON_parse pn \<circ> JSON_stringify pr) xs = xs"
    by (intro map_idI) (auto simp add: list_all_iff)
  then show ?case by simp
next
  case (JObj kvs)
  have d: "distinct (map fst kvs)" and o: "own_keys_order kvs = kvs"
    and a: "\<And>kv. kv \<in> set kvs \<Longrightarrow> prints_back pn pr (snd kv)"
    using JObj.prems by (auto simp add: list_all_iff)
  have m: "map ((\<lambda>(k, d). (k, JSON_parse pn d)) \<circ> (\<lambda>(k, v). (k, JSON_stringify pr v))) kvs = kvs"
  proof (intro map_idI)
    fix kv assume kv: "kv \<in> set kvs"
    obtain k v where [simp]: "kv = (k, v)" by (cases kv)
    have "JSON_parse pn (JSON_stringify pr v) = v"
      using JObj.IH [of kv v] a [OF kv] kv by simp
    then show "((\<lambda>(k, d). (k, JSON_parse pn d)) \<circ> (\<lambda>(k, v). (k, JSON_stringify pr v))) kv = kv"
      by simp
  qed
  show ?case
    using foldl_define_property_distinct [of "[]" kvs] d o by (simp add: m)
qed simp_all



subsection \<open>The parts of a run\<close>

lemma filenames_no_null:
  "JNull \<notin> set C \<Longrightarrow> filenames C = Inr (map filename_of C)"
proof (induction C)
  case Nil
  show ?case by simp
next
  case (Cons c C)
  then have "c \<noteq> JNull" and ih: "filenames C = Inr (map filename_of C)" by auto
  then show ?case by (cases c) (simp_all add: filename_of_def)
qed

lemma load_cache_array:
  "storage w cachePath = Text t \<Longrightarrow> JSON_parse (parseNumber w) t = JArr C \<Longrightarrow>
   JNull \<notin> set C \<Longrightarrow> load_cache w cachePath = (JArr C, map filename_of C, [])"
  by (simp add: load_cache_def filenames_no_null)

lemma load_cache_items_array:
  "storage w cachePath = Text t \<Longrightarrow> JSON_parse (parseNumber w) t = JArr C \<Longrightarrow>
   fst (load_cache w cachePath) = JArr C"
  by (simp add: load_cache_def Let_def split: sum.splits)

text \<open>
  The part of the soft-failure contract of the load that the code keeps: a cache file that
  is absent, cannot be read or is no JSON text gives the empty sequence, and the run
  returns.
\<close>

lemma load_cache_soft_failures:
  "storage w cachePath \<in> {Absent, ExistsFails, ReadFails, NotJson} \<Longrightarrow>
   fst (load_cache w cachePath) = JArr [] \<and> fst (snd (load_cache w cachePath)) = []"
  by (auto simp add: load_cache_def)


lemma newFiles_all_seen:
  "list_all (\<lambda>p. Some (JStr (basename w p)) \<in> set names) P \<Longrightarrow> newFiles w names P = []"
  by (induction P) (simp_all add: newFiles_def)

lemma length_process_files:
  "length (fst (process_files w ctx transcriptDir i fs)) = length fs"
  by (induction fs arbitrary: i) (simp_all add: split_def Let_def)




text \<open>The run, once the directory exists and the cached value can be spread.\<close>

lemma run_from_parts:
  assumes "ensureDir w transcriptDir"
    and "load_cache w cachePath = (cachedItems, names, ev1)"
    and "spread cachedItems = Inr C"
    and "process_files w ctx transcriptDir 0 (newFiles w names P) = (N, ev2)"
  shows "analyzeMediaFiles w P ctx transcriptDir cachePath =
           \<lparr>returned = Inr (C @ N),
            storage_after = fst (save_cache w cachePath (C @ N)),
            trace = ev1 @ ev2 @ snd (save_cache w cachePath (C @ N))\<rparr>"
  using assms by (simp add: analyzeMediaFiles_def allItems_def split_def)

lemma run_completes_on_unreadable_cache:
  assumes "ensureDir w transcriptDir"
    and "storage w cachePath \<in> {Absent, ExistsFails, ReadFails, NotJson}"
  shows "\<exists>items. returned (analyzeMediaFiles w P ctx transcriptDir cachePath) = Inr items"
proof -
  obtain names ev1 where l: "load_cache w cachePath = (JArr [], names, ev1)"
    using load_cache_soft_failures [OF assms(2)] by (cases "load_cache w cachePath") auto
  obtain N ev2 where p: "process_files w ctx transcriptDir 0 (newFiles w names P) = (N, ev2)"
    by (cases "process_files w ctx transcriptDir 0 (newFiles w names P)") auto
  show ?thesis
    using run_from_parts [OF assms(1) l _ p, of "[]"] by simp
qed

lemma run_all_seen:
  assumes "ensureDir w transcriptDir"
    and "storage w cachePath = Text t"
    and "JSON_parse (parseNumber w) t = JArr C"
    and "JNull \<notin> set C"
    and "list_all (\<lambda>p. Some (JStr (basename w p)) \<in> filename_of ` set C) P"
  shows "analyzeMediaFiles w P ctx transcriptDir cachePath =
           \<lparr>returned = Inr C,
            storage_after = fst (save_cache w cachePath C),
            trace = snd (save_cache w cachePath C)\<rparr>"
proof -
  have l: "load_cache w cachePath = (JArr C, map filename_of C, [])"
    using assms(2,3,4) by (rule load_cache_array)
  have n: "newFiles w (map filename_of C) P = []"
    using assms(5) by (intro newFiles_all_seen) simp
  have p: "process_files w ctx transcriptDir 0 (newFiles w (map filename_of C) P) = ([], [])"
    by (simp add: n)
  show ?thesis
    using run_from_parts [OF assms(1) l _ p, of C] by simp
qed

text \<open>The run stops at once when the transcript directory cannot be created.\<close>

lemma run_stops_without_directory:
  "\<not> ensureDir w transcriptDir \<Longrightarrow>
   analyzeMediaFiles w P ctx transcriptDir cachePath =
     \<lparr>returned = Inl IOError, storage_after = storage w, trace = []\<rparr>"
  by (simp add: analyzeMediaFiles_def)

text \<open>
  What holds of the write in a run that reaches the merge: it is attempted with the text of
  the merged sequence, whatever the analyses gave; a failure is logged and the sequence is
  returned all the same.
\<close>

lemma persist_after_merge:
  assumes "ensureDir w transcriptDir"
    and "load_cache w cachePath = (cachedItems, names, ev1)"
    and "spread cachedItems = Inr C"
    and "process_files w ctx transcriptDir 0 (newFiles w names P) = (N, ev2)"
  shows "returned (analyzeMediaFiles w P ctx transcriptDir cachePath) = Inr (C @ N) \<and>
         WriteAttempt cachePath (JSON_stringify (printNumber w) (JArr (C @ N)))
           \<in> set (trace (analyzeMediaFiles w P ctx transcriptDir cachePath)) \<and>
         (if write_ok w cachePath
          then storage_after (analyzeMediaFiles w P ctx transcriptDir cachePath) cachePath
                 = Text (JSON_stringify (printNumber w) (JArr (C @ N)))
          else ErrSavingCache \<in> set (trace (analyzeMediaFiles w P ctx transcriptDir cachePath)) \<and>
               storage_after (analyzeMediaFiles w P ctx transcriptDir cachePath) = storage w)"
  by (simp add: run_from_parts [OF assms] save_cache_def Let_def)

text \<open>The fallback item of a failed call is named after the resolved path.\<close>

lemma fallback_item_of_failed_call:
  assumes "analysis_call_fails w ctx transcriptDir i f"
  shows "fst (analyze_file w ctx transcriptDir i f) =
           fallback_item (basename w (resolve w f)) (detect_media_type w (resolve w f))"
  using assms
  by (auto simp add: analysis_call_fails_def analyze_file_def generateStructuredOutput_def
        Let_def split: option.splits api_reply.splits)

text \<open>
  Under the POSIX library the fallback item of a failed call is named after the base name
  of the discovered path itself, for every path that names a file.
\<close>

lemma fallback_item_of_posix_file:
  assumes "analysis_call_fails w ctx transcriptDir i f"
    and "basename w = posix_basename"
    and "resolve w = posix_resolve cwd"
    and "names_file f"
  shows "fst (analyze_file w ctx transcriptDir i f) =
           fallback_item (basename w f) (detect_media_type w (resolve w f))"
  using fallback_item_of_failed_call [OF assms(1)] posix_resolve_keeps_basename [OF assms(4), of cwd]
  by (simp add: assms(2,3))

lemma filename_of_fallback_item:
  "filename_of (fallback_item n k) = Some (JStr n)"
  by (simp add: filename_of_def fallback_item_def)

text \<open>
  The failures of the suggestion request that \<open>suggestBroll\<close> does absorb: a rejected
  request, unreachable or empty content, unparseable content, and an object without a
  \<open>suggestions\<close> property.
\<close>

lemma suggestBroll_absorbed_failures:
  "reply \<in> {CreateThrows, ChoicesUnreachable, EmptyContent, ContentUnparseable} \<or>
   (\<exists>kvs. reply = Parsed (JObj kvs) \<and> map_of kvs ''suggestions'' = None) \<Longrightarrow>
   suggestBroll (\<lambda>media context. reply) analyzedMedia marketingContext = Inr (JArr [])"
  by (auto simp add: suggestBroll_def suggest_generateStructuredOutput_def)

section \<open>The unseen-file filter\<close>

text \<open>
  C1. For discovered paths \<open>P\<close> and a cache file holding the items \<open>C\<close>, the files taken as
  new are exactly the paths of \<open>P\<close>, in the order of \<open>P\<close>, whose base name is not the
  \<open>filename\<close> field of an item of \<open>C\<close>. Only the base name of a path is looked at. An item
  is an object, so \<open>C\<close> holds no \<open>null\<close>.
\<close>

theorem unseen_files_correct:
  assumes "storage w cachePath = Text t"
    and "JSON_parse (parseNumber w) t = JArr C"
    and "JNull \<notin> set C"
  shows "newFiles w (fst (snd (load_cache w cachePath))) P =
           filter (\<lambda>p. Some (JStr (basename w p)) \<notin> filename_of ` set C) P"
  using assms by (simp add: load_cache_array newFiles_def)

theorem unseen_files_correct_witness:
  "newFiles cached_world (fst (snd (load_cache cached_world ''./media_cache.json'')))
     [''media/a.mp4'', ''media/b.png'', ''archive/a.mp4''] = [''media/b.png'']"
proof -
  have h1: "storage cached_world ''./media_cache.json'' = Text cached_text"
    by (simp add: cached_world_def)
  have h2: "JSON_parse (parseNumber cached_world) cached_text = JArr [cached_item]"
    by code_simp
  have h3: "JNull \<notin> set [cached_item]"
    by (simp add: cached_item_def)
  have "filter (\<lambda>p. Some (JStr (basename cached_world p))
                       \<notin> filename_of ` set [cached_item])
          [''media/a.mp4'', ''media/b.png'', ''archive/a.mp4''] = [''media/b.png'']"
    by code_simp
  then show ?thesis
    using unseen_files_correct
            [OF h1 h2 h3, of "[''media/a.mp4'', ''media/b.png'', ''archive/a.mp4'']"]
    by simp
qed

section \<open>The merge\<close>

text \<open>
  C2. Merging a cached sequence \<open>C\<close> with the newly analyzed \<open>N\<close> gives \<open>C\<close> followed by
  \<open>N\<close>: its length is the sum of the lengths, \<open>C\<close> is its prefix, and the rest is \<open>N\<close> as
  it was, duplicates included.
\<close>

theorem merge_is_concatenation:
  "allItems (JArr C) N = Inr (C @ N) \<and>
   length (C @ N) = length C + length N \<and>
   take (length C) (C @ N) = C \<and>
   drop (length C) (C @ N) = N"
  by (simp add: allItems_def)

theorem merge_is_concatenation_witness:
  "allItems (JArr [fallback_item ''a.mp4'' Video])
     [fallback_item ''b.png'' Image, fallback_item ''b.png'' Image]
   = Inr ([fallback_item ''a.mp4'' Video]
          @ [fallback_item ''b.png'' Image, fallback_item ''b.png'' Image])"
  by (rule merge_is_concatenation [THEN conjunct1])

section \<open>Running twice\<close>




section \<open>The fallback item\<close>

text \<open>
  C4. When the analysis call for an unseen file \<open>f\<close> fails, an absent credential included,
  the item is exactly the fallback object: its \<open>filename\<close> is the base name of \<open>f\<close>, its
  \<open>media_type\<close> the detected kind, its description and relevance the two sentinels. The code
  takes the base name after \<open>path.resolve\<close>; \<open>f\<close> is a file, and resolving the path of a
  file keeps its base name: \<open>posix_resolve_keeps_basename\<close> shows it of the POSIX library
  for every path whose last segment is a name.
\<close>

theorem fallback_on_failed_analysis:
  assumes "analysis_call_fails w ctx transcriptDir i f"
    and "basename w (resolve w f) = basename w f"
  shows "fst (analyze_file w ctx transcriptDir i f) =
           JObj [(''filename'', JStr (basename w f)),
                 (''media_type'', JStr (media_type_str (detect_media_type w (resolve w f)))),
                 (''description'', JStr ''No description found''),
                 (''relevance'', JStr ''unknown'')]"
  using fallback_item_of_failed_call [OF assms(1)] assms(2)
  by (simp add: fallback_item_def)

theorem fallback_on_failed_analysis_witness:
  "fst (analyze_file offline_world ''ctx'' ''./transcripts'' 0 ''media/a.mp4'') =
     JObj [(''filename'', JStr ''a.mp4''), (''media_type'', JStr ''video''),
           (''description'', JStr ''No description found''), (''relevance'', JStr ''unknown'')]"
proof -
  have h: "analysis_call_fails offline_world ''ctx'' ''./transcripts'' 0 ''media/a.mp4''"
    by (simp add: analysis_call_fails_def offline_world_def)
  have f: "names_file ''media/a.mp4''"
    by code_simp
  have r: "basename offline_world (resolve offline_world ''media/a.mp4'')
             = basename offline_world ''media/a.mp4''"
    using posix_resolve_keeps_basename [OF f] by (simp add: offline_world_def)
  have b: "basename offline_world ''media/a.mp4'' = ''a.mp4''"
    by code_simp
  have m: "media_type_str (detect_media_type offline_world (resolve offline_world ''media/a.mp4''))
             = ''video''"
    by code_simp
  show ?thesis
    using fallback_on_failed_analysis [OF h r] b m by simp
qed

section \<open>Loading a malformed cache\<close>

text \<open>
  C5 fails on the code for a cache file that is JSON but no array of items. With the text
  \<open>{}\<close> the load logs its error and keeps the parsed object as \<open>cachedItems\<close>; the file is
  then analyzed, and the spread of line 382 throws: the run ends in a TypeError and nothing
  is written. With the text \<open>[null]\<close> the loaded sequence is \<open>[null]\<close>, not the empty one.
\<close>

theorem malformed_cache_aborts_run:
  "returned (analyzeMediaFiles (broken_cache_world (DObj [])) [''media/a.mp4''] ''ctx''
               ''./transcripts'' ''./media_cache.json'') = Inl TypeError \<and>
   trace (analyzeMediaFiles (broken_cache_world (DObj [])) [''media/a.mp4''] ''ctx''
               ''./transcripts'' ''./media_cache.json'')
     = [ErrLoadingCache, AnalysisCall 0 ''a.mp4'', ErrGenerating, FallbackLog ''a.mp4''] \<and>
   fst (load_cache (broken_cache_world (DArr [DNull])) ''./media_cache.json'') = JArr [JNull]"
  by code_simp

section \<open>The suggestion request\<close>

text \<open>
  C6 fails on the code for a reply whose content is the JSON text \<open>null\<close>: it is not empty
  and it parses, so \<open>null\<close> is returned in place of the default, and reading its
  \<open>suggestions\<close> outside the \<open>try\<close> throws a TypeError to the caller.
\<close>

theorem suggestBroll_null_reply:
  "suggestBroll (\<lambda>media context. Parsed JNull) analyzedMedia marketingContext = Inl TypeError"
  by (simp add: suggestBroll_def suggest_generateStructuredOutput_def)

section \<open>Persisting\<close>

text \<open>
  C7 fails on the code for the cache file of C5. With the text \<open>{}\<close> in the cache file the
  one discovered file is analyzed and gets its fallback item, and then the spread throws:
  no write is attempted, the cache file stays as it was and the caller gets a TypeError in
  place of the sequence.
\<close>

theorem persist_skipped_after_malformed_cache:
  "FallbackLog ''a.mp4''
     \<in> set (trace (analyzeMediaFiles (broken_cache_world (DObj [])) [''media/a.mp4''] ''ctx''
                      ''./transcripts'' ''./media_cache.json'')) \<and>
   filter is_write_attempt
     (trace (analyzeMediaFiles (broken_cache_world (DObj [])) [''media/a.mp4''] ''ctx''
               ''./transcripts'' ''./media_cache.json'')) = [] \<and>
   storage_after (analyzeMediaFiles (broken_cache_world (DObj [])) [''media/a.mp4''] ''ctx''
                    ''./transcripts'' ''./media_cache.json'') ''./media_cache.json''
     = Text (DObj []) \<and>
   returned (analyzeMediaFiles (broken_cache_world (DObj [])) [''media/a.mp4''] ''ctx''
               ''./transcripts'' ''./media_cache.json'') = Inl TypeError"
  by code_simp

text \<open>
  C8, as the code has it. Every item of the loaded cache \<open>C\<close> is, at its place and as it
  was loaded, in the sequence that is returned, and the persisted text holds at that place
  the serialisation of the item: its fields under their names and in their order, a finite
  number as the engine prints it, a number that is not finite as \<open>null\<close>. When every item
  of \<open>C\<close> is a value that prints back, the persisted entries read back as \<open>C\<close>.
\<close>

theorem cached_items_persisted:
  assumes "ensureDir w transcriptDir"
    and "storage w cachePath = Text t"
    and "JSON_parse (parseNumber w) t = JArr C"
    and "write_ok w cachePath"
  shows "\<exists>N persisted.
           returned (analyzeMediaFiles w P ctx transcriptDir cachePath) = Inr (C @ N) \<and>
           storage_after (analyzeMediaFiles w P ctx transcriptDir cachePath) cachePath
             = Text (DArr persisted) \<and>
           length persisted = length C + length N \<and>
           take (length C) persisted = map (JSON_stringify (printNumber w)) C \<and>
           (if list_all (prints_back (parseNumber w) (printNumber w)) C
            then map (JSON_parse (parseNumber w)) (take (length C) persisted) = C
            else True)"
proof -
  obtain names ev1 where l: "load_cache w cachePath = (JArr C, names, ev1)"
    using load_cache_items_array [OF assms(2,3)] by (cases "load_cache w cachePath") auto
  obtain N ev2 where p: "process_files w ctx transcriptDir 0 (newFiles w names P) = (N, ev2)"
    by (cases "process_files w ctx transcriptDir 0 (newFiles w names P)") auto
  let ?persisted = "map (JSON_stringify (printNumber w)) (C @ N)"
  have r: "analyzeMediaFiles w P ctx transcriptDir cachePath =
           \<lparr>returned = Inr (C @ N),
            storage_after = fst (save_cache w cachePath (C @ N)),
            trace = ev1 @ ev2 @ snd (save_cache w cachePath (C @ N))\<rparr>"
    using run_from_parts [OF assms(1) l _ p, of C] by simp
  have a: "storage_after (analyzeMediaFiles w P ctx transcriptDir cachePath) cachePath
             = Text (DArr ?persisted)"
    using assms(4) by (simp add: r save_cache_def Let_def)
  have b: "take (length C) ?persisted = map (JSON_stringify (printNumber w)) C"
    by simp
  have c: "list_all (prints_back (parseNumber w) (printNumber w)) C \<Longrightarrow>
           map (JSON_parse (parseNumber w)) (take (length C) ?persisted) = C"
  proof -
    assume "list_all (prints_back (parseNumber w) (printNumber w)) C"
    then have "map (JSON_parse (parseNumber w) \<circ> JSON_stringify (printNumber w)) C = C"
      by (intro map_idI) (simp add: list_all_iff JSON_roundtrip)
    then show ?thesis by simp
  qed
  show ?thesis
    using r a b c by (intro exI [of _ N] exI [of _ ?persisted]) simp
qed

text \<open>
  The cache holds \<open>a.mp4\<close> with its \<open>tags\<close>; \<open>b.png\<close> is new: the entry of \<open>a.mp4\<close> is
  written as it was read, one entry is added.
\<close>

theorem cached_items_persisted_witness:
  "\<exists>persisted.
     storage_after (analyzeMediaFiles cached_world [''media/a.mp4'', ''media/b.png''] ''ctx''
                      ''./transcripts'' ''./media_cache.json'') ''./media_cache.json''
       = Text (DArr persisted) \<and>
     length persisted = 2 \<and>
     map (JSON_parse engine_parseNumber) (take 1 persisted) = [cached_item]"
proof -
  have h1: "ensureDir cached_world ''./transcripts''"
    by (simp add: cached_world_def offline_world_def)
  have h2: "storage cached_world ''./media_cache.json'' = Text cached_text"
    by (simp add: cached_world_def)
  have h3: "JSON_parse (parseNumber cached_world) cached_text = JArr [cached_item]"
    by code_simp
  have h4: "write_ok cached_world ''./media_cache.json''"
    by (simp add: cached_world_def offline_world_def)
  have h5: "list_all (prints_back (parseNumber cached_world) (printNumber cached_world))
              [cached_item]"
    by code_simp
  have h6: "parseNumber cached_world = engine_parseNumber"
    by (simp add: cached_world_def offline_world_def)
  have h7: "returned (analyzeMediaFiles cached_world [''media/a.mp4'', ''media/b.png''] ''ctx''
                    ''./transcripts'' ''./media_cache.json'')
             = Inr [cached_item, fallback_item ''b.png'' Image]"
    by code_simp
  show ?thesis
    using cached_items_persisted
            [OF h1 h2 h3 h4, of "[''media/a.mp4'', ''media/b.png'']" "''ctx''"] h5 h6 h7
    by auto
qed

text \<open>
  C8 as stated fails for a cached entry with a number that \<open>JSON.parse\<close> does not hold
  exactly or that \<open>JSON.stringify\<close> cannot print: the entry is loaded with \<open>id\<close> as \<open>2^53\<close>
  and \<open>score\<close> as \<open>+Infinity\<close>, and persisted with \<open>id\<close> printed anew and \<open>score\<close> as \<open>null\<close>.
\<close>

theorem cached_entry_changed_counterexample:
  "storage scored_world ''./media_cache.json''
     = Text (DArr [DObj [(''filename'', DStr ''a.mp4''),
                         (''id'', DNum ''9007199254740993''),
                         (''score'', DNum ''1e400'')]]) \<and>
   returned (analyzeMediaFiles scored_world [''media/a.mp4''] ''ctx'' ''./transcripts''
               ''./media_cache.json'')
     = Inr [JObj [(''filename'', JStr ''a.mp4''),
                  (''id'', JNum 0x4340000000000000),
                  (''score'', JNum 0x7FF0000000000000)]] \<and>
   storage_after (analyzeMediaFiles scored_world [''media/a.mp4''] ''ctx'' ''./transcripts''
                    ''./media_cache.json'') ''./media_cache.json''
     = Text (DArr [DObj [(''filename'', DStr ''a.mp4''),
                         (''id'', DNum ''9007199254740992''),
                         (''score'', DNull)]]) \<and>
   JSON_parse engine_parseNumber
     (DArr [DObj [(''filename'', DStr ''a.mp4''),
                  (''id'', DNum ''9007199254740992''),
                  (''score'', DNull)]])
     = JArr [JObj [(''filename'', JStr ''a.mp4''),
                   (''id'', JNum 0x4340000000000000),
                   (''score'', JNull)]]"
  by code_simp

section \<open>A run with nothing new\<close>

text \<open>
  C9. When the base name of every discovered path is the \<open>filename\<close> of a cached item, the
  run calls no analysis, returns the cached items in their order, and still writes: the
  only events are the write of the text of that same sequence and, if the write fails, its
  error. After a successful write the cache file holds that text; after a failed one it is
  as it was.
\<close>

theorem all_seen_run_returns_cache:
  assumes "ensureDir w transcriptDir"
    and "storage w cachePath = Text t"
    and "JSON_parse (parseNumber w) t = JArr C"
    and "JNull \<notin> set C"
    and "list_all (\<lambda>p. Some (JStr (basename w p)) \<in> filename_of ` set C) P"
  shows "returned (analyzeMediaFiles w P ctx transcriptDir cachePath) = Inr C \<and>
         trace (analyzeMediaFiles w P ctx transcriptDir cachePath) =
           (if write_ok w cachePath
            then [WriteAttempt cachePath (JSON_stringify (printNumber w) (JArr C))]
            else [WriteAttempt cachePath (JSON_stringify (printNumber w) (JArr C)),
                  ErrSavingCache]) \<and>
         storage_after (analyzeMediaFiles w P ctx transcriptDir cachePath) cachePath
           = (if write_ok w cachePath
              then Text (JSON_stringify (printNumber w) (JArr C))
              else Text t)"
  using assms(2) by (simp add: run_all_seen [OF assms] save_cache_def Let_def)

text \<open>
  All seen, and the text of the file changes all the same: the write is made, with the
  numbers of the entry as the engine prints them.
\<close>

theorem all_seen_run_returns_cache_witness:
  "returned (analyzeMediaFiles scored_world [''media/a.mp4'', ''archive/a.mp4''] ''ctx''
               ''./transcripts'' ''./media_cache.json'')
     = Inr [JObj [(''filename'', JStr ''a.mp4''),
                  (''id'', JNum 0x4340000000000000),
                  (''score'', JNum 0x7FF0000000000000)]] \<and>
   trace (analyzeMediaFiles scored_world [''media/a.mp4'', ''archive/a.mp4''] ''ctx''
               ''./transcripts'' ''./media_cache.json'')
     = [WriteAttempt ''./media_cache.json''
          (DArr [DObj [(''filename'', DStr ''a.mp4''),
                       (''id'', DNum ''9007199254740992''),
                       (''score'', DNull)]])] \<and>
   storage_after (analyzeMediaFiles scored_world [''media/a.mp4'', ''archive/a.mp4''] ''ctx''
               ''./transcripts'' ''./media_cache.json'') ''./media_cache.json''
     = Text (DArr [DObj [(''filename'', DStr ''a.mp4''),
                         (''id'', DNum ''9007199254740992''),
                         (''score'', DNull)]])"
proof -
  let ?C = "[JObj [(''filename'', JStr ''a.mp4''),
                   (''id'', JNum 0x4340000000000000),
                   (''score'', JNum 0x7FF0000000000000)]]"
  have h1: "ensureDir scored_world ''./transcripts''"
    by (simp add: scored_world_def offline_world_def)
  have h2: "storage scored_world ''./media_cache.json'' = Text scored_text"
    by (simp add: scored_world_def)
  have h3: "JSON_parse (parseNumber scored_world) scored_text = JArr ?C"
    by code_simp
  have h4: "JNull \<notin> set ?C"
    by simp
  have h5: "list_all (\<lambda>p. Some (JStr (basename scored_world p)) \<in> filename_of ` set ?C)
              [''media/a.mp4'', ''archive/a.mp4'']"
    by code_simp
  have h6: "write_ok scored_world ''./media_cache.json''"
    by (simp add: scored_world_def offline_world_def)
  have h7: "JSON_stringify (printNumber scored_world) (JArr ?C)
              = DArr [DObj [(''filename'', DStr ''a.mp4''),
                            (''id'', DNum ''9007199254740992''),
                            (''score'', DNull)]]"
    by code_simp
  show ?thesis
    using all_seen_run_returns_cache [OF h1 h2 h3 h4 h5, of "''ctx''"] h6 h7 by simp
qed

section \<open>The detected kind\<close>

text \<open>
  C10. The kind detected for a path is image, video or other, never unknown, so the
  \<open>media_type\<close> of a fallback item is one of these three.
\<close>

theorem classification_never_unknown:
  "detect_media_type w filePath \<noteq> Unknown \<and>
   detect_media_type w filePath \<in> {Image, Video, Other} \<and>
   property ''media_type'' (fallback_item fileName (detect_media_type w filePath))
     \<in> {Inr (Some (JStr ''image'')), Inr (Some (JStr ''video'')), Inr (Some (JStr ''other''))}"
  by (simp add: detect_media_type_def fallback_item_def Let_def)

theorem classification_never_unknown_witness:
  "detect_media_type offline_world ''/home/user/project/media/clip.MOV'' \<noteq> Unknown"
  by (rule classification_never_unknown [THEN conjunct1])

end
